theory Spec2Isabelle
  imports Main "HOL-Library.Word"
begin

section \<open>The workload interface and the example workload\<close>

text \<open>
  The \<^verbatim>\<open>Executable\<close> interface has three methods, \<^verbatim>\<open>Start()\<close>, \<^verbatim>\<open>Stop()\<close> and
  \<^verbatim>\<open>Run()\<close>, none of which returns a value. A method acts on the workload's own state
  \<open>'w\<close>; a call that does not come back (it blocks for the lifetime of the service, or
  panics) is \<open>None\<close>.
\<close>

record 'w Executable =
  Start :: "'w \<Rightarrow> 'w option"
  Stop :: "'w \<Rightarrow> 'w option"
  Run :: "'w \<Rightarrow> 'w option"

text \<open>The workload of \<^verbatim>\<open>examples2/myservice.go\<close>: three empty method bodies.\<close>

definition executable :: "unit Executable" where
  "executable = \<lparr>Start = Some, Stop = Some, Run = Some\<rparr>"

definition name_main :: string where
  "name_main = ''xbookApp''"

section \<open>Values of the service library\<close>

text \<open>
  \<^verbatim>\<open>svc.State\<close>, \<^verbatim>\<open>svc.Cmd\<close> and \<^verbatim>\<open>svc.Accepted\<close> are \<^verbatim>\<open>uint32\<close>; the constants below
  carry the values the Windows service API gives them.
\<close>

definition svc_Stopped :: "32 word" where "svc_Stopped = 1"
definition svc_StartPending :: "32 word" where "svc_StartPending = 2"
definition svc_StopPending :: "32 word" where "svc_StopPending = 3"
definition svc_Running :: "32 word" where "svc_Running = 4"
definition svc_ContinuePending :: "32 word" where "svc_ContinuePending = 5"
definition svc_PausePending :: "32 word" where "svc_PausePending = 6"
definition svc_Paused :: "32 word" where "svc_Paused = 7"

definition svc_Stop :: "32 word" where "svc_Stop = 1"
definition svc_Pause :: "32 word" where "svc_Pause = 2"
definition svc_Continue :: "32 word" where "svc_Continue = 3"
definition svc_Interrogate :: "32 word" where "svc_Interrogate = 4"
definition svc_Shutdown :: "32 word" where "svc_Shutdown = 5"

definition svc_AcceptStop :: "32 word" where "svc_AcceptStop = 1"
definition svc_AcceptShutdown :: "32 word" where "svc_AcceptShutdown = 4"
definition svc_AcceptPauseAndContinue :: "32 word" where "svc_AcceptPauseAndContinue = 2"

text \<open>
  \<^verbatim>\<open>svc.Status\<close>: the handler sets \<^verbatim>\<open>State\<close> and \<^verbatim>\<open>Accepts\<close> only; a field left out of
  a composite literal is zero. \<^verbatim>\<open>svc.ChangeRequest\<close>: the handler reads \<^verbatim>\<open>Cmd\<close>,
  \<^verbatim>\<open>CurrentStatus\<close> and \<^verbatim>\<open>Context\<close> (a \<^verbatim>\<open>uintptr\<close>, printed in decimal).
\<close>

record Status =
  State :: "32 word"
  Accepts :: "32 word"

record ChangeRequest =
  Cmd :: "32 word"
  CurrentStatus :: Status
  Context :: nat

text \<open>The event-log handle \<^verbatim>\<open>elog\<close>, opened for a source name; \<open>None\<close> is \<^verbatim>\<open>nil\<close>.\<close>

datatype Log = Log string

section \<open>Errors\<close>

text \<open>
  An \<^verbatim>\<open>error\<close> value is an \<^verbatim>\<open>*exec.ExitError\<close> (with what its \<^verbatim>\<open>Sys()\<close> holds), a
  value made by \<^verbatim>\<open>errors.New\<close>, or any other error, kept by a number.
\<close>

datatype sys = WaitStatus "32 word" | OtherSys

datatype error = ExitError sys | errorString string | OtherError nat

text \<open>
  \<^verbatim>\<open>ExitStatus()\<close> of a \<^verbatim>\<open>syscall.WaitStatus\<close> is \<^verbatim>\<open>int(w.ExitCode)\<close>, the conversion
  of a \<^verbatim>\<open>uint32\<close> to \<^verbatim>\<open>int\<close>. It keeps the value where \<^verbatim>\<open>int\<close> has 64 bits; where
  \<^verbatim>\<open>int\<close> has 32 bits it keeps the bits, so an exit code from \<open>2 ^ 31\<close> up reads as a
  negative number. The size of \<^verbatim>\<open>int\<close> belongs to the target the package is built for.
\<close>

datatype int_bits = Int32 | Int64

definition ExitStatus :: "int_bits \<Rightarrow> 32 word \<Rightarrow> int" where
  "ExitStatus n w = (case n of Int32 \<Rightarrow> sint w | Int64 \<Rightarrow> uint w)"

text \<open>
  An entry of the table \<^verbatim>\<open>WinErrCode\<close>. The table itself is declared outside the file
  at hand, so every function that reads it takes it as the parameter \<open>WinErrCode\<close>, beside
  the size \<open>n\<close> of \<^verbatim>\<open>int\<close>.
\<close>

record winError =
  Title :: string
  Description :: string
  Action :: string

definition getWindowsError :: "int_bits \<Rightarrow> (int \<rightharpoonup> winError) \<Rightarrow> error \<Rightarrow> error" where
  "getWindowsError n WinErrCode inputError =
     (case inputError of
        ExitError (WaitStatus status) \<Rightarrow>
          (case WinErrCode (ExitStatus n status) of
             Some sysErr \<Rightarrow>
               errorString ([CHR 0x0A] @ '' '' @ Title sysErr @ '': '' @ Description sysErr
                            @ '' '' @ [CHR 0x0A] @ '' '' @ Action sysErr)
           | None \<Rightarrow> inputError)
      | _ \<Rightarrow> inputError)"

section \<open>Constructing the daemon\<close>

record windowsRecord =
  name :: string
  description :: string
  dependencies :: "string list"

text \<open>
  \<^verbatim>\<open>newDaemon\<close> assigns the package variable \<^verbatim>\<open>elog\<close> and returns the record with a
  \<^verbatim>\<open>nil\<close> error. \<open>eventlog_Open\<close> is the result of \<^verbatim>\<open>eventlog.Open(name)\<close>; the model
  returns the new value of \<^verbatim>\<open>elog\<close> beside the function's two results.
\<close>

definition newDaemon ::
  "(string \<Rightarrow> error + Log) \<Rightarrow> string \<Rightarrow> string \<Rightarrow> string list
     \<Rightarrow> Log option \<times> windowsRecord \<times> error option" where
  "newDaemon eventlog_Open nm descr deps =
     (let elog = (case eventlog_Open nm of Inl err \<Rightarrow> None | Inr l \<Rightarrow> Some l)
      in (elog, \<lparr>name = nm, description = descr, dependencies = deps\<rparr>, None))"

section \<open>Formatting\<close>

fun Join :: "string list \<Rightarrow> string \<Rightarrow> string" where
  "Join [] sep = []"
| "Join [a] sep = a"
| "Join (a # b # rest) sep = a @ sep @ Join (b # rest) sep"

text \<open>The verb \<^verbatim>\<open>%d\<close> on an unsigned value: its decimal digits.\<close>

fun Sprintf_d :: "nat \<Rightarrow> string" where
  "Sprintf_d n =
     (if n < 10 then [''0123456789'' ! n]
      else Sprintf_d (n div 10) @ [''0123456789'' ! (n mod 10)])"

declare Sprintf_d.simps [simp del]

section \<open>The handler: \<^verbatim>\<open>serviceHandler.Execute\<close>\<close>

text \<open>
  What the handler does to the outside, in the order it does it: a send on \<^verbatim>\<open>changes\<close>,
  a receive from \<^verbatim>\<open>r\<close> or from the active tick channel, a call of the workload, a call of
  the event log, a sleep (in milliseconds). The text of the error entry is
  \<^verbatim>\<open>"unexpected control request #"\<close> followed by the library's rendering of the whole
  request; the entry keeps the request.
\<close>

datatype ticker = fasttick | slowtick

datatype effect =
    Announce Status
  | Recv ChangeRequest
  | Ticked ticker
  | ExeStart
  | ExeRun
  | ExeStop
  | ElogInfo nat string
  | ElogError nat ChangeRequest
  | Sleep nat

text \<open>What one \<^verbatim>\<open>select\<close> yields: a tick, or a request from \<^verbatim>\<open>r\<close>.\<close>

datatype event = TickFired | Request ChangeRequest

text \<open>The handler's variables: the workload, the local \<^verbatim>\<open>tick\<close>, and the history.\<close>

record 'w st =
  wl :: 'w
  tick :: ticker
  out :: "effect list"

definition emit :: "effect \<Rightarrow> 'w st \<Rightarrow> 'w st" where
  "emit x s = s\<lparr>out := out s @ [x]\<rparr>"

text \<open>A workload call: noted in the history, then made; \<open>False\<close> when it does not return.\<close>

definition invoke :: "('w \<Rightarrow> 'w option) \<Rightarrow> effect \<Rightarrow> 'w st \<Rightarrow> bool \<times> 'w st" where
  "invoke f x s =
     (case f (wl s) of
        None \<Rightarrow> (False, emit x s)
      | Some w' \<Rightarrow> (True, (emit x s)\<lparr>wl := w'\<rparr>))"

definition cmdsAccepted :: "32 word" where
  "cmdsAccepted = or (or svc_AcceptStop svc_AcceptShutdown) svc_AcceptPauseAndContinue"

text \<open>
  How one pass through the body of the \<^verbatim>\<open>for\<close> ends: control reaches the end of the
  \<^verbatim>\<open>select\<close> (also through a plain \<^verbatim>\<open>break\<close>, which leaves the \<^verbatim>\<open>switch\<close> only), or
  \<^verbatim>\<open>continue loop\<close>, or \<^verbatim>\<open>break loop\<close>, or a workload call that has not returned.
\<close>

datatype flow = Fallthrough | ContinueLoop | BreakLoop | CallHangs

definition iteration ::
  "Log option \<Rightarrow> string list \<Rightarrow> 'w Executable \<Rightarrow> event \<Rightarrow> 'w st \<Rightarrow> flow \<times> 'w st" where
  "iteration elog args e ev s =
     (case ev of
        TickFired \<Rightarrow> (Fallthrough, emit (Ticked (tick s)) s)
      | Request c \<Rightarrow>
          (let s = emit (Recv c) s in
           if Cmd c = svc_Interrogate then
             (let s = emit (Announce (CurrentStatus c)) s;
                  s = emit (Sleep 100) s;
                  s = emit (Announce (CurrentStatus c)) s
              in (Fallthrough, s))
           else if Cmd c = svc_Stop \<or> Cmd c = svc_Shutdown then
             (let s = (if elog \<noteq> None
                       then emit (ElogInfo 1 (Join args ''-'' @ ''-'' @ Sprintf_d (Context c))) s
                       else s)
              in (case invoke (Stop e) ExeStop s of
                    (False, s) \<Rightarrow> (CallHangs, s)
                  | (True, s) \<Rightarrow> (Fallthrough, s)))
           else if Cmd c = svc_Pause then
             (let s = emit (Announce \<lparr>State = svc_Paused, Accepts = cmdsAccepted\<rparr>) s
              in (Fallthrough, s\<lparr>tick := slowtick\<rparr>))
           else if Cmd c = svc_Continue then
             (let s = emit (Announce \<lparr>State = svc_Running, Accepts = cmdsAccepted\<rparr>) s
              in (Fallthrough, s\<lparr>tick := fasttick\<rparr>))
           else
             (ContinueLoop, if elog \<noteq> None then emit (ElogError 1 c) s else s)))"

text \<open>
  A run either returns a result, or is still in the \<^verbatim>\<open>select\<close> when the events given
  to it are used up, or stays in a workload call.
\<close>

datatype ('r, 's) outcome = Returned 'r 's | Selecting 's | CallPending 's

fun final :: "('r, 's) outcome \<Rightarrow> 's" where
  "final (Returned r s) = s"
| "final (Selecting s) = s"
| "final (CallPending s) = s"

text \<open>
  The labelled \<^verbatim>\<open>for\<close> with what follows it: the send of \<^verbatim>\<open>StopPending\<close> and the
  \<^verbatim>\<open>return\<close> of the named results, both zero.
\<close>

fun loop ::
  "Log option \<Rightarrow> string list \<Rightarrow> 'w Executable \<Rightarrow> event list \<Rightarrow> 'w st
     \<Rightarrow> (bool \<times> 32 word, 'w st) outcome" where
  "loop elog args e [] s = Selecting s"
| "loop elog args e (ev # evs) s =
     (case iteration elog args e ev s of
        (Fallthrough, s') \<Rightarrow> loop elog args e evs s'
      | (ContinueLoop, s') \<Rightarrow> loop elog args e evs s'
      | (BreakLoop, s') \<Rightarrow>
          Returned (False, 0) (emit (Announce \<lparr>State = svc_StopPending, Accepts = 0\<rparr>) s')
      | (CallHangs, s') \<Rightarrow> CallPending s')"

text \<open>The statements before the loop; \<open>Inl\<close> when \<^verbatim>\<open>Start\<close> or \<^verbatim>\<open>Run\<close> does not return.\<close>

definition startup :: "Log option \<Rightarrow> 'w Executable \<Rightarrow> 'w \<Rightarrow> 'w st + 'w st" where
  "startup elog e w =
     (let s = \<lparr>wl = w, tick = fasttick,
               out = [Announce \<lparr>State = svc_StartPending, Accepts = 0\<rparr>]\<rparr>
      in case invoke (Start e) ExeStart s of
           (False, s) \<Rightarrow> Inl s
         | (True, s) \<Rightarrow>
             (let s = emit (Announce \<lparr>State = svc_Running, Accepts = cmdsAccepted\<rparr>) s
              in case invoke (Run e) ExeRun s of
                   (False, s) \<Rightarrow> Inl s
                 | (True, s) \<Rightarrow>
                     Inr (if elog \<noteq> None then emit (ElogInfo 1 ''start-run'') s else s)))"

definition Execute ::
  "Log option \<Rightarrow> 'w Executable \<Rightarrow> string list \<Rightarrow> event list \<Rightarrow> 'w
     \<Rightarrow> (bool \<times> 32 word, 'w st) outcome" where
  "Execute elog e args r w =
     (case startup elog e w of
        Inl s \<Rightarrow> CallPending s
      | Inr s \<Rightarrow> loop elog args e r s)"

section \<open>\<^verbatim>\<open>windowsRecord.Run\<close>\<close>

text \<open>
  What \<^verbatim>\<open>Run\<close> takes from outside the file at hand: the size of \<^verbatim>\<open>int\<close>, the table
  \<open>WinErrCode\<close> and the constant \<open>failed\<close> of the package, the result of
  \<^verbatim>\<open>svc.IsAnInteractiveSession()\<close>, and what \<^verbatim>\<open>svc.Run\<close> meets:
  \<^item> \<open>Inl err\<close>: it cannot reach the service manager and returns \<open>err\<close> without calling
    the handler;
  \<^item> \<open>Inr (args, r, None)\<close>: the manager starts the service with \<open>args\<close> and the handler is
    served the events \<open>r\<close>;
  \<^item> \<open>Inr (args, r, Some err)\<close>: the same, and after the events \<open>r\<close> the exchange with the
    manager fails with \<open>err\<close> (a status passed on is refused, the connection is lost): the
    library serves the handler no further and \<^verbatim>\<open>svc.Run\<close> returns \<open>err\<close>.
\<close>

record env =
  int_size :: int_bits
  WinErrCode :: "int \<rightharpoonup> winError"
  failed :: string
  IsAnInteractiveSession :: "error + bool"
  dispatcher :: "error + string list \<times> event list \<times> error option"

text \<open>
  \<^verbatim>\<open>svc.Run\<close> by its contract: it calls the handler's \<^verbatim>\<open>Execute\<close>, returns the error of
  a failed exchange with the manager, and returns \<^verbatim>\<open>nil\<close> once \<^verbatim>\<open>Execute\<close> has returned.
\<close>

definition svc_Run ::
  "error + string list \<times> event list \<times> error option
     \<Rightarrow> (string list \<Rightarrow> event list \<Rightarrow> 'w \<Rightarrow> (bool \<times> 32 word, 'w st) outcome)
     \<Rightarrow> 'w \<Rightarrow> (error option, 'w \<times> effect list) outcome" where
  "svc_Run d handler w =
     (case d of
        Inl err \<Rightarrow> Returned (Some err) (w, [])
      | Inr (args, r, broken) \<Rightarrow>
          (case broken of
             Some err \<Rightarrow>
               (let s = final (handler args r w) in Returned (Some err) (wl s, out s))
           | None \<Rightarrow>
               (case handler args r w of
                  Returned res s \<Rightarrow> Returned None (wl s, out s)
                | Selecting s \<Rightarrow> Selecting (wl s, out s)
                | CallPending s \<Rightarrow> CallPending (wl s, out s))))"

definition windowsRecord_Run ::
  "env \<Rightarrow> Log option \<Rightarrow> windowsRecord \<Rightarrow> 'w Executable \<Rightarrow> 'w
     \<Rightarrow> (string \<times> error option, 'w \<times> effect list) outcome" where
  "windowsRecord_Run env elog windows e w =
     (let runAction = ''Running '' @ description windows @ '':'' in
      case IsAnInteractiveSession env of
        Inl err \<Rightarrow>
          Returned (runAction @ failed env,
                    Some (getWindowsError (int_size env) (WinErrCode env) err)) (w, [])
      | Inr interactive \<Rightarrow>
          if \<not> interactive then
            (case svc_Run (dispatcher env) (Execute elog e) w of
               Returned (Some err) p \<Rightarrow>
                 Returned (runAction @ failed env,
                           Some (getWindowsError (int_size env) (WinErrCode env) err)) p
             | Returned None p \<Rightarrow> Returned (runAction @ '' completed.'', None) p
             | Selecting p \<Rightarrow> Selecting p
             | CallPending p \<Rightarrow> CallPending p)
          else
            (case Run e w of
               None \<Rightarrow> CallPending (w, [ExeRun])
             | Some w' \<Rightarrow> Returned (runAction @ '' completed.'', None) (w', [ExeRun])))"

section \<open>Reading a history\<close>

text \<open>The statuses sent on \<^verbatim>\<open>changes\<close>, in order.\<close>

fun announcements :: "effect list \<Rightarrow> Status list" where
  "announcements [] = []"
| "announcements (Announce st # xs) = st # announcements xs"
| "announcements (x # xs) = announcements xs"

fun is_log :: "effect \<Rightarrow> bool" where
  "is_log (ElogInfo eid msg) = True"
| "is_log (ElogError eid c) = True"
| "is_log x = False"

text \<open>Announcements and workload calls.\<close>

fun is_act :: "effect \<Rightarrow> bool" where
  "is_act (Announce st) = True"
| "is_act ExeStart = True"
| "is_act ExeRun = True"
| "is_act ExeStop = True"
| "is_act x = False"

definition logs :: "effect list \<Rightarrow> effect list" where
  "logs xs = filter is_log xs"

definition unlogged :: "effect list \<Rightarrow> effect list" where
  "unlogged xs = filter (\<lambda>x. \<not> is_log x) xs"

definition acts :: "effect list \<Rightarrow> effect list" where
  "acts xs = filter is_act xs"

text \<open>The same outcome, its history seen through \<open>p\<close>.\<close>

definition through ::
  "(effect list \<Rightarrow> effect list) \<Rightarrow> ('r, 'w st) outcome \<Rightarrow> ('r, 'w st) outcome" where
  "through p = map_outcome id (\<lambda>s. s\<lparr>out := p (out s)\<rparr>)"

fun is_Returned :: "('r, 's) outcome \<Rightarrow> bool" where
  "is_Returned (Returned r s) = True"
| "is_Returned x = False"

fun result :: "('r, 's) outcome \<Rightarrow> 'r option" where
  "result (Returned r s) = Some r"
| "result x = None"

text \<open>
  The handler keeps no variable for the state of the service: the state in effect is the
  one of the status sent last. \<open>track cur xs\<close> is the status in effect after the history
  \<open>xs\<close> when it was \<open>cur\<close> before.
\<close>

fun track :: "Status option \<Rightarrow> effect list \<Rightarrow> Status option" where
  "track cur [] = cur"
| "track cur (Announce st # xs) = track (Some st) xs"
| "track cur (x # xs) = track cur xs"

definition ServiceState :: "'w st \<Rightarrow> 32 word option" where
  "ServiceState s = map_option State (track None (out s))"




text \<open>A request whose command falls to the \<^verbatim>\<open>default\<close> case of the \<^verbatim>\<open>switch\<close>.\<close>

definition unrecognized :: "ChangeRequest \<Rightarrow> bool" where
  "unrecognized c =
     (Cmd c \<noteq> svc_Interrogate \<and> Cmd c \<noteq> svc_Stop \<and> Cmd c \<noteq> svc_Shutdown
      \<and> Cmd c \<noteq> svc_Pause \<and> Cmd c \<noteq> svc_Continue)"

text \<open>The two statuses the handler sends with the accepted commands.\<close>

abbreviation status_Running :: Status where
  "status_Running \<equiv> \<lparr>State = svc_Running, Accepts = cmdsAccepted\<rparr>"

abbreviation status_Paused :: Status where
  "status_Paused \<equiv> \<lparr>State = svc_Paused, Accepts = cmdsAccepted\<rparr>"

section \<open>Facts about one pass and about the loop\<close>

lemmas svc_defs =
  svc_Stopped_def svc_StartPending_def svc_StopPending_def svc_Running_def
  svc_ContinuePending_def svc_PausePending_def svc_Paused_def
  svc_Stop_def svc_Pause_def svc_Continue_def svc_Interrogate_def svc_Shutdown_def
  svc_AcceptStop_def svc_AcceptShutdown_def svc_AcceptPauseAndContinue_def

text \<open>No case of the \<^verbatim>\<open>switch\<close> leaves the labelled loop.\<close>

lemma iteration_flow: "fst (iteration elog args e ev s) \<noteq> BreakLoop"
  by (simp add: iteration_def invoke_def Let_def split: event.splits option.splits)

lemma loop_not_Returned: "\<not> is_Returned (loop elog args e r s)"
proof (induction r arbitrary: s)
  case Nil
  show ?case by simp
next
  case (Cons ev evs)
  obtain f s' where it: "iteration elog args e ev s = (f, s')"
    by (cases "iteration elog args e ev s")
  with iteration_flow [of elog args e ev s] have "f \<noteq> BreakLoop" by simp
  with it Cons.IH [of s'] show ?case
    by (cases f) simp_all
qed

lemma Execute_not_Returned: "\<not> is_Returned (Execute elog e args r w)"
  by (simp add: Execute_def loop_not_Returned split: sum.splits)

text \<open>
  One pass reads the workload and the tick only, and adds to the history; with or without
  a log it runs alike, up to the log entries it adds.
\<close>

lemma iteration_rel:
  assumes "wl s = wl s'" and "tick s = tick s'"
  shows "\<exists>f w t suf suf'.
           iteration elog args e ev s = (f, \<lparr>wl = w, tick = t, out = out s @ suf\<rparr>)
         \<and> iteration elog' args e ev s' = (f, \<lparr>wl = w, tick = t, out = out s' @ suf'\<rparr>)
         \<and> unlogged suf = unlogged suf'"
proof -
  obtain w t h where s: "s = \<lparr>wl = w, tick = t, out = h\<rparr>"
    by (cases s) simp
  obtain h' where s': "s' = \<lparr>wl = w, tick = t, out = h'\<rparr>"
    using assms s by (cases s') simp
  show ?thesis
  proof (cases ev)
    case TickFired
    then show ?thesis
      by (simp add: s s' iteration_def emit_def unlogged_def)
  next
    case (Request c)
    then show ?thesis
      by (cases "Stop e w")
         (simp_all add: s s' iteration_def invoke_def emit_def unlogged_def Let_def)
  qed
qed

lemma filter_unlogged:
  assumes "\<And>x. is_log x \<Longrightarrow> \<not> P x"
  shows "filter P (unlogged xs) = filter P xs"
proof -
  have "(\<lambda>x. \<not> is_log x \<and> P x) = P" using assms by auto
  then show ?thesis by (simp add: unlogged_def)
qed

lemma loop_rel:
  assumes P: "\<And>x. is_log x \<Longrightarrow> \<not> P x"
  shows "wl s = wl s' \<Longrightarrow> tick s = tick s' \<Longrightarrow> filter P (out s) = filter P (out s')
     \<Longrightarrow> through (filter P) (loop elog args e r s) = through (filter P) (loop elog' args e r s')"
proof (induction r arbitrary: s s')
  case Nil
  then show ?case by (simp add: through_def)
next
  case (Cons ev evs)
  from iteration_rel [OF Cons.prems(1) Cons.prems(2), of elog args e ev elog']
  obtain f w t suf suf' where
    it: "iteration elog args e ev s = (f, \<lparr>wl = w, tick = t, out = out s @ suf\<rparr>)" and
    it': "iteration elog' args e ev s' = (f, \<lparr>wl = w, tick = t, out = out s' @ suf'\<rparr>)" and
    un: "unlogged suf = unlogged suf'"
    by blast
  have "filter P suf = filter P suf'"
    using un filter_unlogged [of P suf, OF P] filter_unlogged [of P suf', OF P] by simp
  with Cons.prems(3)
  have eq: "filter P (out s @ suf) = filter P (out s' @ suf')" by simp
  let ?a = "\<lparr>wl = w, tick = t, out = out s @ suf\<rparr>"
  let ?b = "\<lparr>wl = w, tick = t, out = out s' @ suf'\<rparr>"
  have ih: "through (filter P) (loop elog args e evs ?a)
          = through (filter P) (loop elog' args e evs ?b)"
    using Cons.IH [of ?a ?b] eq by simp
  from iteration_flow [of elog args e ev s] it have "f \<noteq> BreakLoop" by simp
  then show ?case
    using it it' ih eq by (cases f) (simp_all add: through_def)
qed

text \<open>One pass, case by case.\<close>

lemma iteration_Tick:
  "iteration elog args e TickFired s = (Fallthrough, s\<lparr>out := out s @ [Ticked (tick s)]\<rparr>)"
  by (simp add: iteration_def emit_def)

lemma iteration_Interrogate:
  "Cmd c = svc_Interrogate \<Longrightarrow>
   iteration elog args e (Request c) s =
     (Fallthrough, s\<lparr>out := out s @ [Recv c, Announce (CurrentStatus c), Sleep 100,
                                      Announce (CurrentStatus c)]\<rparr>)"
  by (simp add: iteration_def emit_def)

lemma iteration_Stop:
  "Cmd c = svc_Stop \<or> Cmd c = svc_Shutdown \<Longrightarrow>
   iteration elog args e (Request c) s =
     (case Stop e (wl s) of
        None \<Rightarrow>
          (CallHangs,
           s\<lparr>out := out s @ Recv c #
                (if elog \<noteq> None
                 then [ElogInfo 1 (Join args ''-'' @ ''-'' @ Sprintf_d (Context c))] else [])
                @ [ExeStop]\<rparr>)
      | Some w' \<Rightarrow>
          (Fallthrough,
           s\<lparr>wl := w', out := out s @ Recv c #
                (if elog \<noteq> None
                 then [ElogInfo 1 (Join args ''-'' @ ''-'' @ Sprintf_d (Context c))] else [])
                @ [ExeStop]\<rparr>))"
  by (auto simp add: iteration_def invoke_def emit_def svc_defs Let_def split: option.splits)

lemma iteration_Pause:
  "Cmd c = svc_Pause \<Longrightarrow>
   iteration elog args e (Request c) s =
     (Fallthrough,
      s\<lparr>tick := slowtick,
        out := out s @ [Recv c, Announce \<lparr>State = svc_Paused, Accepts = cmdsAccepted\<rparr>]\<rparr>)"
  by (simp add: iteration_def emit_def svc_defs)

lemma iteration_Continue:
  "Cmd c = svc_Continue \<Longrightarrow>
   iteration elog args e (Request c) s =
     (Fallthrough,
      s\<lparr>tick := fasttick,
        out := out s @ [Recv c, Announce \<lparr>State = svc_Running, Accepts = cmdsAccepted\<rparr>]\<rparr>)"
  by (simp add: iteration_def emit_def svc_defs)

lemma iteration_unrecognized:
  "unrecognized c \<Longrightarrow>
   iteration elog args e (Request c) s =
     (ContinueLoop, s\<lparr>out := out s @ Recv c # (if elog \<noteq> None then [ElogError 1 c] else [])\<rparr>)"
  by (simp add: unrecognized_def iteration_def emit_def)

lemma Cmd_cases:
  "Cmd c = svc_Interrogate \<or> (Cmd c = svc_Stop \<or> Cmd c = svc_Shutdown) \<or> Cmd c = svc_Pause
   \<or> Cmd c = svc_Continue \<or> unrecognized c"
  by (auto simp add: unrecognized_def)



text \<open>Projections of a history.\<close>

lemma acts_is_filter: "acts = filter is_act"
  by (rule ext) (simp add: acts_def)

lemma is_act_not_log: "is_log x \<Longrightarrow> \<not> is_act x"
  by (cases x) simp_all

lemma logs_append: "logs (xs @ ys) = logs xs @ logs ys"
  by (simp add: logs_def)

lemma announcements_append:
  "announcements (xs @ ys) = announcements xs @ announcements ys"
  by (induction xs rule: announcements.induct) simp_all

lemma track_append: "track cur (xs @ ys) = track (track cur xs) ys"
  by (induction cur xs rule: track.induct) simp_all


lemma iteration_announcements:
  "announcements (out (snd (iteration elog args e (Request c) s)))
     = announcements (out s) @
         (if Cmd c = svc_Interrogate then [CurrentStatus c, CurrentStatus c]
          else if Cmd c = svc_Pause then [\<lparr>State = svc_Paused, Accepts = cmdsAccepted\<rparr>]
          else if Cmd c = svc_Continue then [\<lparr>State = svc_Running, Accepts = cmdsAccepted\<rparr>]
          else [])"
  using Cmd_cases [of c]
  by (cases "Stop e (wl s)")
     (auto simp add: iteration_Interrogate iteration_Stop iteration_Pause iteration_Continue
        iteration_unrecognized unrecognized_def announcements_append svc_defs)

text \<open>The statements before the loop, path by path.\<close>

lemma startup_eq:
  "startup elog e w =
     (case Start e w of
        None \<Rightarrow>
          Inl \<lparr>wl = w, tick = fasttick,
               out = [Announce \<lparr>State = svc_StartPending, Accepts = 0\<rparr>, ExeStart]\<rparr>
      | Some w1 \<Rightarrow>
          (case Run e w1 of
             None \<Rightarrow>
               Inl \<lparr>wl = w1, tick = fasttick,
                    out = [Announce \<lparr>State = svc_StartPending, Accepts = 0\<rparr>, ExeStart,
                           Announce \<lparr>State = svc_Running, Accepts = cmdsAccepted\<rparr>, ExeRun]\<rparr>
           | Some w2 \<Rightarrow>
               Inr \<lparr>wl = w2, tick = fasttick,
                    out = [Announce \<lparr>State = svc_StartPending, Accepts = 0\<rparr>, ExeStart,
                           Announce \<lparr>State = svc_Running, Accepts = cmdsAccepted\<rparr>, ExeRun]
                          @ (if elog \<noteq> None then [ElogInfo 1 ''start-run''] else [])\<rparr>))"
  by (simp add: startup_def invoke_def emit_def Let_def split: option.splits)

text \<open>Requests of the \<^verbatim>\<open>default\<close> case leave no trace but their receipt and a log entry.\<close>

lemma loop_unrecognized:
  "list_all unrecognized us \<Longrightarrow>
   \<exists>suf. loop elog args e (map Request us @ rest) s = loop elog args e rest (s\<lparr>out := out s @ suf\<rparr>)
        \<and> acts suf = []"
proof (induction us arbitrary: s)
  case Nil
  show ?case by (rule exI [of _ "[]"]) (simp add: acts_def)
next
  case (Cons c cs)
  let ?x = "Recv c # (if elog \<noteq> None then [ElogError 1 c] else [])"
  let ?s = "s\<lparr>out := out s @ ?x\<rparr>"
  from Cons.prems have c: "unrecognized c" and cs: "list_all unrecognized cs" by simp_all
  from Cons.IH [OF cs, of ?s] obtain suf where
    l: "loop elog args e (map Request cs @ rest) ?s = loop elog args e rest (?s\<lparr>out := out ?s @ suf\<rparr>)"
    and a: "acts suf = []" by blast
  have "loop elog args e (map Request (c # cs) @ rest) s
        = loop elog args e rest (s\<lparr>out := out s @ (?x @ suf)\<rparr>)"
    using l by (simp add: iteration_unrecognized [OF c])
  moreover have "acts (?x @ suf) = []" using a by (simp add: acts_def)
  ultimately show ?case by blast
qed

text \<open>With and without a log the handler runs alike; without one it logs nothing.\<close>

lemma Execute_rel:
  "through unlogged (Execute elog e args r w) = through unlogged (Execute elog' e args r w)"
proof -
  have un: "unlogged = filter (\<lambda>x. \<not> is_log x)"
    by (rule ext) (simp add: unlogged_def)
  show ?thesis
  proof (cases "Start e w")
    case None
    then show ?thesis by (simp add: Execute_def startup_eq)
  next
    case (Some w1)
    note w1 = this
    show ?thesis
    proof (cases "Run e w1")
      case None
      with w1 show ?thesis by (simp add: Execute_def startup_eq)
    next
      case (Some w2)
      let ?h = "[Announce \<lparr>State = svc_StartPending, Accepts = 0\<rparr>, ExeStart,
                 Announce \<lparr>State = svc_Running, Accepts = cmdsAccepted\<rparr>, ExeRun]"
      let ?s = "\<lambda>l. \<lparr>wl = w2, tick = fasttick,
                     out = ?h @ (if l \<noteq> None then [ElogInfo 1 ''start-run''] else [])\<rparr>"
      have "through (filter (\<lambda>x. \<not> is_log x)) (loop elog args e r (?s elog))
          = through (filter (\<lambda>x. \<not> is_log x)) (loop elog' args e r (?s elog'))"
        by (intro loop_rel) simp_all
      with w1 Some show ?thesis by (simp add: Execute_def startup_eq un)
    qed
  qed
qed

lemma iteration_no_log: "logs (out (snd (iteration None args e ev s))) = logs (out s)"
proof (cases ev)
  case TickFired
  then show ?thesis by (simp add: iteration_Tick logs_def)
next
  case (Request c)
  from Cmd_cases [of c] show ?thesis
    by (cases "Stop e (wl s)")
       (auto simp add: Request iteration_Interrogate iteration_Stop iteration_Pause
          iteration_Continue iteration_unrecognized logs_def)
qed

lemma loop_no_log: "logs (out (final (loop None args e r s))) = logs (out s)"
proof (induction r arbitrary: s)
  case Nil
  show ?case by simp
next
  case (Cons ev evs)
  obtain f s' where it: "iteration None args e ev s = (f, s')"
    by (cases "iteration None args e ev s")
  from iteration_flow [of None args e ev s] it have nb: "f \<noteq> BreakLoop" by simp
  from iteration_no_log [of args e ev s] it have "logs (out s') = logs (out s)" by simp
  with Cons.IH [of s'] it nb show ?case by (cases f) simp_all
qed

lemma Execute_no_log: "logs (out (final (Execute None e args r w))) = []"
  by (simp add: Execute_def startup_eq loop_no_log split: option.splits) (simp add: logs_def)

lemma Sprintf_d_7: "Sprintf_d 7 = ''7''"
  by (simp add: Sprintf_d.simps)




text \<open>When \<^verbatim>\<open>getWindowsError\<close> changes its argument.\<close>

lemma getWindowsError_changes:
  "(getWindowsError n W x \<noteq> x)
     = (\<exists>status sysErr. x = ExitError (WaitStatus status)
          \<and> W (ExitStatus n status) = Some sysErr)"
  by (auto simp add: getWindowsError_def split: error.splits sys.splits option.splits)

text \<open>The two readings of an exit code part from \<open>2 ^ 31\<close> up.\<close>

lemma ExitStatus_sizes:
  "ExitStatus Int64 5 = 5 \<and> ExitStatus Int32 5 = 5
 \<and> ExitStatus Int64 0xC0000005 = 3221225477 \<and> ExitStatus Int32 0xC0000005 = - 1073741819"
  by (simp add: ExitStatus_def)





text \<open>The history of a supervised run is the handler's.\<close>

lemma supervised_history:
  assumes "IsAnInteractiveSession env = Inr False" and "dispatcher env = Inr (args, r, broken)"
  shows "final (windowsRecord_Run env elog windows e w)
           = (wl (final (Execute elog e args r w)), out (final (Execute elog e args r w)))"
  using assms
  by (cases "Execute elog e args r w"; cases broken)
     (simp_all add: windowsRecord_Run_def svc_Run_def Let_def)

section \<open>Termination of the loop\<close>

text \<open>
  C1. A Stop or Shutdown request is to end the loop, after which the workload's \<^verbatim>\<open>Stop\<close>
  has been called once and \<^verbatim>\<open>StopPending\<close> is the last status sent. The handler run on the
  example workload with a Stop request and then a Shutdown request: it is still in the
  \<^verbatim>\<open>select\<close> after both, it has called \<^verbatim>\<open>Stop\<close> of the workload twice, and it has sent
  no \<^verbatim>\<open>StopPending\<close>. (The \<^verbatim>\<open>break\<close> of that case leaves the \<^verbatim>\<open>switch\<close>; by
  \<open>Execute_not_Returned\<close> no sequence of events makes the handler return.)
\<close>

theorem Execute_Stop_Shutdown_still_selecting:
  "Execute None executable []
     [Request \<lparr>Cmd = svc_Stop,
               CurrentStatus = \<lparr>State = svc_Running, Accepts = cmdsAccepted\<rparr>, Context = 0\<rparr>,
      Request \<lparr>Cmd = svc_Shutdown,
               CurrentStatus = \<lparr>State = svc_Running, Accepts = cmdsAccepted\<rparr>, Context = 0\<rparr>]
     ()
   = Selecting \<lparr>wl = (), tick = fasttick, out =
       [Announce \<lparr>State = svc_StartPending, Accepts = 0\<rparr>, ExeStart,
        Announce \<lparr>State = svc_Running, Accepts = cmdsAccepted\<rparr>, ExeRun,
        Recv \<lparr>Cmd = svc_Stop,
              CurrentStatus = \<lparr>State = svc_Running, Accepts = cmdsAccepted\<rparr>, Context = 0\<rparr>,
        ExeStop,
        Recv \<lparr>Cmd = svc_Shutdown,
              CurrentStatus = \<lparr>State = svc_Running, Accepts = cmdsAccepted\<rparr>, Context = 0\<rparr>,
        ExeStop]\<rparr>"
  by (simp add: Execute_def startup_def invoke_def emit_def executable_def iteration_def
      svc_defs)

text \<open>
  C2. The statuses are to come in the order \<^verbatim>\<open>StartPending\<close>, \<^verbatim>\<open>Running\<close>, then
  \<^verbatim>\<open>Paused\<close> and \<^verbatim>\<open>Running\<close> as Pause and Continue arrive, then \<^verbatim>\<open>StopPending\<close>. On
  the requests Pause, Continue, Stop the handler sends the first four and stops short of
  \<^verbatim>\<open>StopPending\<close>; the run has not returned.
\<close>

theorem Execute_Pause_Continue_Stop_announcements:
  "announcements (out (final (Execute None executable []
     [Request \<lparr>Cmd = svc_Pause,
               CurrentStatus = \<lparr>State = svc_Running, Accepts = cmdsAccepted\<rparr>, Context = 0\<rparr>,
      Request \<lparr>Cmd = svc_Continue,
               CurrentStatus = \<lparr>State = svc_Paused, Accepts = cmdsAccepted\<rparr>, Context = 0\<rparr>,
      Request \<lparr>Cmd = svc_Stop,
               CurrentStatus = \<lparr>State = svc_Running, Accepts = cmdsAccepted\<rparr>, Context = 0\<rparr>]
     ())))
   = [\<lparr>State = svc_StartPending, Accepts = 0\<rparr>,
      \<lparr>State = svc_Running, Accepts = cmdsAccepted\<rparr>,
      \<lparr>State = svc_Paused, Accepts = cmdsAccepted\<rparr>,
      \<lparr>State = svc_Running, Accepts = cmdsAccepted\<rparr>]
   \<and> \<not> is_Returned (Execute None executable []
     [Request \<lparr>Cmd = svc_Pause,
               CurrentStatus = \<lparr>State = svc_Running, Accepts = cmdsAccepted\<rparr>, Context = 0\<rparr>,
      Request \<lparr>Cmd = svc_Continue,
               CurrentStatus = \<lparr>State = svc_Paused, Accepts = cmdsAccepted\<rparr>, Context = 0\<rparr>,
      Request \<lparr>Cmd = svc_Stop,
               CurrentStatus = \<lparr>State = svc_Running, Accepts = cmdsAccepted\<rparr>, Context = 0\<rparr>]
     ())"
  by (simp add: Execute_def startup_def invoke_def emit_def executable_def iteration_def
      svc_defs)

section \<open>Requests the handler does not know\<close>

text \<open>
  C3. A request whose command is none of Interrogate, Stop, Shutdown, Pause, Continue
  takes the \<^verbatim>\<open>continue loop\<close> exit of the pass and leaves the state of the service, the
  tick and the workload as they were; no number of such requests makes the handler
  return; and a run on any number of them followed by further events \<open>rest\<close> (a Stop, for
  one) has the same outcome, workload, tick, announcements and workload calls as the run
  on \<open>rest\<close> alone.
\<close>

theorem unrecognized_skipped:
  assumes c: "unrecognized c" and us: "list_all unrecognized us"
  shows "fst (iteration elog args e (Request c) s) = ContinueLoop
       \<and> ServiceState (snd (iteration elog args e (Request c) s)) = ServiceState s
       \<and> tick (snd (iteration elog args e (Request c) s)) = tick s
       \<and> wl (snd (iteration elog args e (Request c) s)) = wl s
       \<and> \<not> is_Returned (Execute elog e args (map Request us @ rest) w)
       \<and> through acts (Execute elog e args (map Request us @ rest) w)
           = through acts (Execute elog e args rest w)"
proof -
  have st: "ServiceState (snd (iteration elog args e (Request c) s)) = ServiceState s"
    by (simp add: iteration_unrecognized [OF c] ServiceState_def track_append)
  have run: "through acts (Execute elog e args (map Request us @ rest) w)
           = through acts (Execute elog e args rest w)"
  proof (cases "startup elog e w")
    case (Inl s0)
    then show ?thesis by (simp add: Execute_def)
  next
    case (Inr s0)
    from loop_unrecognized [OF us, of elog args e rest s0] obtain suf where
      l: "loop elog args e (map Request us @ rest) s0
          = loop elog args e rest (s0\<lparr>out := out s0 @ suf\<rparr>)"
      and a: "acts suf = []" by blast
    have "through (filter is_act) (loop elog args e rest (s0\<lparr>out := out s0 @ suf\<rparr>))
        = through (filter is_act) (loop elog args e rest s0)"
      using a by (intro loop_rel) (simp_all add: is_act_not_log acts_def)
    with l Inr show ?thesis by (simp add: Execute_def acts_is_filter)
  qed
  show ?thesis
    using st run by (simp add: iteration_unrecognized [OF c] Execute_not_Returned)
qed

theorem unrecognized_skipped_witness:
  "unrecognized \<lparr>Cmd = 6, CurrentStatus = status_Running, Context = 0\<rparr>
 \<and> list_all unrecognized
     [\<lparr>Cmd = 6, CurrentStatus = status_Running, Context = 0\<rparr>,
      \<lparr>Cmd = 200, CurrentStatus = status_Running, Context = 0\<rparr>]
 \<and> fst (iteration (Some (Log name_main)) [] executable
          (Request \<lparr>Cmd = 6, CurrentStatus = status_Running, Context = 0\<rparr>)
          \<lparr>wl = (), tick = slowtick, out = [Announce status_Paused]\<rparr>) = ContinueLoop
 \<and> through acts (Execute (Some (Log name_main)) executable []
      (map Request [\<lparr>Cmd = 6, CurrentStatus = status_Running, Context = 0\<rparr>,
                    \<lparr>Cmd = 200, CurrentStatus = status_Running, Context = 0\<rparr>]
       @ [Request \<lparr>Cmd = svc_Stop, CurrentStatus = status_Running, Context = 0\<rparr>]) ())
   = Selecting \<lparr>wl = (), tick = fasttick,
       out = [Announce \<lparr>State = svc_StartPending, Accepts = 0\<rparr>, ExeStart,
              Announce status_Running, ExeRun, ExeStop]\<rparr>"
proof -
  let ?c = "\<lparr>Cmd = 6, CurrentStatus = status_Running, Context = 0\<rparr>"
  let ?d = "\<lparr>Cmd = 200, CurrentStatus = status_Running, Context = 0\<rparr>"
  have h1: "unrecognized ?c" by (simp add: unrecognized_def svc_defs)
  have h2: "list_all unrecognized [?c, ?d]" by (simp add: unrecognized_def svc_defs)
  have stop: "through acts (Execute (Some (Log name_main)) executable []
      [Request \<lparr>Cmd = svc_Stop, CurrentStatus = status_Running, Context = 0\<rparr>] ())
   = Selecting \<lparr>wl = (), tick = fasttick,
       out = [Announce \<lparr>State = svc_StartPending, Accepts = 0\<rparr>, ExeStart,
              Announce status_Running, ExeRun, ExeStop]\<rparr>"
    by (simp add: Execute_def startup_eq executable_def iteration_Stop through_def acts_def)
  from unrecognized_skipped [OF h1 h2, where elog = "Some (Log name_main)" and args = "[]"
      and e = executable and s = "\<lparr>wl = (), tick = slowtick, out = [Announce status_Paused]\<rparr>"
      and rest = "[Request \<lparr>Cmd = svc_Stop, CurrentStatus = status_Running, Context = 0\<rparr>]"
      and w = "()"]
  show ?thesis using h1 h2 stop by simp
qed

section \<open>Interrogate\<close>




section \<open>The tick\<close>




section \<open>The diagnostic of Stop and Shutdown\<close>

text \<open>
  C6. With the startup arguments \<^verbatim>\<open>["a","b"]\<close>, a Shutdown or Stop request whose context
  value is 7 adds, when a log is set, exactly one log entry, the information entry
  \<^verbatim>\<open>"a-b-7"\<close>; when no log is set it adds none, the whole run has no log entry, and the
  run is the one with a log once the log entries are left out of the history.
\<close>

theorem Shutdown_diagnostic:
  assumes c: "Cmd c = svc_Shutdown \<or> Cmd c = svc_Stop" and c7: "Context c = 7"
  shows "logs (out (snd (iteration (Some l) [''a'', ''b''] e (Request c) s)))
           = logs (out s) @ [ElogInfo 1 ''a-b-7'']
       \<and> logs (out (snd (iteration None [''a'', ''b''] e (Request c) s))) = logs (out s)
       \<and> logs (out (final (Execute None e [''a'', ''b''] r w))) = []
       \<and> through unlogged (Execute None e [''a'', ''b''] r w)
           = through unlogged (Execute (Some l) e [''a'', ''b''] r w)"
proof -
  from c have c': "Cmd c = svc_Stop \<or> Cmd c = svc_Shutdown" by blast
  have "logs (out (snd (iteration (Some l) [''a'', ''b''] e (Request c) s)))
           = logs (out s) @ [ElogInfo 1 ''a-b-7'']"
    using c7 by (cases "Stop e (wl s)")
       (simp_all add: iteration_Stop [OF c'] logs_def Sprintf_d_7)
  then show ?thesis
    by (simp add: iteration_no_log Execute_no_log Execute_rel)
qed

theorem Shutdown_diagnostic_witness:
  "(Cmd \<lparr>Cmd = svc_Shutdown, CurrentStatus = status_Running, Context = 7\<rparr> = svc_Shutdown
    \<or> Cmd \<lparr>Cmd = svc_Shutdown, CurrentStatus = status_Running, Context = 7\<rparr> = svc_Stop)
 \<and> Context \<lparr>Cmd = svc_Shutdown, CurrentStatus = status_Running, Context = 7\<rparr> = 7
 \<and> logs (out (snd (iteration (Some (Log name_main)) [''a'', ''b''] executable
      (Request \<lparr>Cmd = svc_Shutdown, CurrentStatus = status_Running, Context = 7\<rparr>)
      \<lparr>wl = (), tick = fasttick, out = [ElogInfo 1 ''start-run'']\<rparr>)))
   = [ElogInfo 1 ''start-run'', ElogInfo 1 ''a-b-7'']
 \<and> through unlogged (Execute (Some (Log name_main)) executable [''a'', ''b'']
      [Request \<lparr>Cmd = svc_Shutdown, CurrentStatus = status_Running, Context = 7\<rparr>] ())
   = Selecting \<lparr>wl = (), tick = fasttick,
       out = [Announce \<lparr>State = svc_StartPending, Accepts = 0\<rparr>, ExeStart,
              Announce status_Running, ExeRun,
              Recv \<lparr>Cmd = svc_Shutdown, CurrentStatus = status_Running, Context = 7\<rparr>,
              ExeStop]\<rparr>"
proof -
  let ?c = "\<lparr>Cmd = svc_Shutdown, CurrentStatus = status_Running, Context = 7\<rparr>"
  have h1: "Cmd ?c = svc_Shutdown \<or> Cmd ?c = svc_Stop" by simp
  have h2: "Context ?c = 7" by simp
  have plain: "through unlogged (Execute None executable [''a'', ''b''] [Request ?c] ())
   = Selecting \<lparr>wl = (), tick = fasttick,
       out = [Announce \<lparr>State = svc_StartPending, Accepts = 0\<rparr>, ExeStart,
              Announce status_Running, ExeRun, Recv ?c, ExeStop]\<rparr>"
    by (simp add: Execute_def startup_eq executable_def iteration_Stop through_def unlogged_def)
  from Shutdown_diagnostic [OF h1 h2, where l = "Log name_main" and e = executable
      and s = "\<lparr>wl = (), tick = fasttick, out = [ElogInfo 1 ''start-run'']\<rparr>"
      and r = "[Request ?c]" and w = "()"]
  show ?thesis using h1 h2 plain by (simp add: logs_def)
qed

section \<open>The interactive session\<close>

text \<open>
  C7. In an interactive session \<^verbatim>\<open>Run\<close> does one thing, the call of the workload's
  \<^verbatim>\<open>Run\<close>: the history holds that call alone (no status is sent, no request received),
  \<^verbatim>\<open>Run\<close> has returned exactly when the workload's call has, and nothing of what the
  service manager would deliver is looked at.
\<close>

theorem interactive_Run:
  assumes "IsAnInteractiveSession env = Inr True"
  shows "snd (final (windowsRecord_Run env elog windows e w)) = [ExeRun]
       \<and> is_Returned (windowsRecord_Run env elog windows e w) = (Run e w \<noteq> None)
       \<and> windowsRecord_Run (env\<lparr>dispatcher := d\<rparr>) elog windows e w
           = windowsRecord_Run env elog windows e w"
  using assms by (cases "Run e w") (simp_all add: windowsRecord_Run_def)

theorem interactive_Run_witness:
  "IsAnInteractiveSession
     \<lparr>int_size = Int64, WinErrCode = Map.empty, failed = ''[FAILED]'', IsAnInteractiveSession = Inr True,
      dispatcher = Inr ([], [Request \<lparr>Cmd = svc_Stop, CurrentStatus = status_Running,
                                      Context = 0\<rparr>], None)\<rparr> = Inr True
 \<and> snd (final (windowsRecord_Run
     \<lparr>int_size = Int64, WinErrCode = Map.empty, failed = ''[FAILED]'', IsAnInteractiveSession = Inr True,
      dispatcher = Inr ([], [Request \<lparr>Cmd = svc_Stop, CurrentStatus = status_Running,
                                      Context = 0\<rparr>], None)\<rparr>
     None \<lparr>name = name_main, description = name_main, dependencies = []\<rparr> executable ()))
   = [ExeRun]
 \<and> is_Returned (windowsRecord_Run
     \<lparr>int_size = Int64, WinErrCode = Map.empty, failed = ''[FAILED]'', IsAnInteractiveSession = Inr True,
      dispatcher = Inr ([], [Request \<lparr>Cmd = svc_Stop, CurrentStatus = status_Running,
                                      Context = 0\<rparr>], None)\<rparr>
     None \<lparr>name = name_main, description = name_main, dependencies = []\<rparr> executable ())"
proof -
  let ?env = "\<lparr>int_size = Int64, WinErrCode = Map.empty, failed = ''[FAILED]'', IsAnInteractiveSession = Inr True,
      dispatcher = Inr ([], [Request \<lparr>Cmd = svc_Stop, CurrentStatus = status_Running,
                                      Context = 0\<rparr>], None)\<rparr>"
  have h: "IsAnInteractiveSession ?env = Inr True" by simp
  from interactive_Run [OF h, where elog = None
      and windows = "\<lparr>name = name_main, description = name_main, dependencies = []\<rparr>"
      and e = executable and w = "()" and d = "Inl (OtherError 0)"]
  show ?thesis using h by (simp add: executable_def)
qed

section \<open>Errors of the service manager\<close>

text \<open>
  C8. Whatever error \<^verbatim>\<open>svc.IsAnInteractiveSession\<close> or, in a session that is not
  interactive, \<^verbatim>\<open>svc.Run\<close> returns (the manager is not reached and the handler never
  called, or the exchange with the manager fails after the handler has been served the
  events \<open>r\<close>) comes back from \<^verbatim>\<open>Run\<close> beside the action text followed by \<open>failed\<close>,
  passed through \<^verbatim>\<open>getWindowsError\<close>. That function changes an error exactly when it is
  an exit error with a wait status whose exit status is a key of the table, and then
  returns the text built from the entry, on either size of \<^verbatim>\<open>int\<close>. A send on
  \<^verbatim>\<open>changes\<close> gives the handler nothing to test: the history of a run that fails is the
  history of the same run without the failure, the handler's on \<open>r\<close>, in which each pass
  sends the statuses of its case once and none again.
\<close>

theorem Run_propagates_errors:
  assumes "IsAnInteractiveSession env = Inl err
         \<or> IsAnInteractiveSession env = Inr False \<and> dispatcher env = Inl err
         \<or> IsAnInteractiveSession env = Inr False \<and> dispatcher env = Inr (args, r, Some err)"
  shows "windowsRecord_Run env elog windows e w
           = Returned (''Running '' @ description windows @ '':'' @ failed env,
                       Some (getWindowsError (int_size env) (WinErrCode env) err))
               (if IsAnInteractiveSession env = Inr False
                   \<and> dispatcher env = Inr (args, r, Some err)
                then (wl (final (Execute elog e args r w)),
                      out (final (Execute elog e args r w)))
                else (w, []))
       \<and> (getWindowsError n W x \<noteq> x)
           = (\<exists>status sysErr. x = ExitError (WaitStatus status)
                \<and> W (ExitStatus n status) = Some sysErr)
       \<and> getWindowsError n (W(ExitStatus n status \<mapsto> sysErr)) (ExitError (WaitStatus status))
           = errorString ([CHR 0x0A] @ '' '' @ Title sysErr @ '': '' @ Description sysErr
                          @ '' '' @ [CHR 0x0A] @ '' '' @ Action sysErr)
       \<and> final (windowsRecord_Run
             (env\<lparr>IsAnInteractiveSession := Inr False, dispatcher := Inr (args', r', Some err')\<rparr>)
             elog windows e w)
           = final (windowsRecord_Run
             (env\<lparr>IsAnInteractiveSession := Inr False, dispatcher := Inr (args', r', None)\<rparr>)
             elog windows e w)
       \<and> snd (final (windowsRecord_Run
             (env\<lparr>IsAnInteractiveSession := Inr False, dispatcher := Inr (args', r', Some err')\<rparr>)
             elog windows e w))
           = out (final (Execute elog e args' r' w))
       \<and> announcements (out (snd (iteration elog args e (Request c) s)))
           = announcements (out s) @
               (if Cmd c = svc_Interrogate then [CurrentStatus c, CurrentStatus c]
                else if Cmd c = svc_Pause then [\<lparr>State = svc_Paused, Accepts = cmdsAccepted\<rparr>]
                else if Cmd c = svc_Continue
                  then [\<lparr>State = svc_Running, Accepts = cmdsAccepted\<rparr>]
                else [])"
proof -
  have ret: "windowsRecord_Run env elog windows e w
           = Returned (''Running '' @ description windows @ '':'' @ failed env,
                       Some (getWindowsError (int_size env) (WinErrCode env) err))
               (if IsAnInteractiveSession env = Inr False
                   \<and> dispatcher env = Inr (args, r, Some err)
                then (wl (final (Execute elog e args r w)),
                      out (final (Execute elog e args r w)))
                else (w, []))"
    using assms by (auto simp add: windowsRecord_Run_def svc_Run_def Let_def)
  have repl: "getWindowsError n (W(ExitStatus n status \<mapsto> sysErr)) (ExitError (WaitStatus status))
           = errorString ([CHR 0x0A] @ '' '' @ Title sysErr @ '': '' @ Description sysErr
                          @ '' '' @ [CHR 0x0A] @ '' '' @ Action sysErr)"
    by (simp add: getWindowsError_def)
  let ?broken = "env\<lparr>IsAnInteractiveSession := Inr False,
                      dispatcher := Inr (args', r', Some err')\<rparr>"
  let ?sound = "env\<lparr>IsAnInteractiveSession := Inr False, dispatcher := Inr (args', r', None)\<rparr>"
  have b: "final (windowsRecord_Run ?broken elog windows e w)
         = (wl (final (Execute elog e args' r' w)), out (final (Execute elog e args' r' w)))"
    by (rule supervised_history) simp_all
  have g: "final (windowsRecord_Run ?sound elog windows e w)
         = (wl (final (Execute elog e args' r' w)), out (final (Execute elog e args' r' w)))"
    by (rule supervised_history) simp_all
  have same: "final (windowsRecord_Run ?broken elog windows e w)
            = final (windowsRecord_Run ?sound elog windows e w)"
    by (simp only: b g)
  have hist: "snd (final (windowsRecord_Run ?broken elog windows e w))
            = out (final (Execute elog e args' r' w))"
    by (simp only: b snd_conv)
  show ?thesis
    using ret repl same hist getWindowsError_changes [of n W x]
      iteration_announcements [of elog args e c s]
    by (intro conjI) assumption+
qed

theorem Run_propagates_errors_witness:
  "windowsRecord_Run
     \<lparr>int_size = Int64,
      WinErrCode = [5 \<mapsto> \<lparr>Title = ''ERROR_ACCESS_DENIED'', Description = ''Access denied.'',
                          Action = ''Run as administrator.''\<rparr>],
      failed = ''[FAILED]'', IsAnInteractiveSession = Inl (ExitError (WaitStatus 5)),
      dispatcher = Inr ([], [], None)\<rparr>
     None \<lparr>name = name_main, description = name_main, dependencies = []\<rparr> executable ()
   = Returned (''Running xbookApp:[FAILED]'',
        Some (errorString ([CHR 0x0A] @ '' ERROR_ACCESS_DENIED: Access denied. '' @ [CHR 0x0A]
                           @ '' Run as administrator.''))) ((), [])
 \<and> windowsRecord_Run
     \<lparr>int_size = Int32,
      WinErrCode = [5 \<mapsto> \<lparr>Title = ''ERROR_ACCESS_DENIED'', Description = ''Access denied.'',
                          Action = ''Run as administrator.''\<rparr>],
      failed = ''[FAILED]'', IsAnInteractiveSession = Inr False,
      dispatcher = Inl (OtherError 1063)\<rparr>
     None \<lparr>name = name_main, description = name_main, dependencies = []\<rparr> executable ()
   = Returned (''Running xbookApp:[FAILED]'', Some (OtherError 1063)) ((), [])
 \<and> windowsRecord_Run
     \<lparr>int_size = Int64,
      WinErrCode = [5 \<mapsto> \<lparr>Title = ''ERROR_ACCESS_DENIED'', Description = ''Access denied.'',
                          Action = ''Run as administrator.''\<rparr>],
      failed = ''[FAILED]'', IsAnInteractiveSession = Inr False,
      dispatcher = Inr ([], [Request \<lparr>Cmd = svc_Pause, CurrentStatus = status_Running,
                                      Context = 0\<rparr>], Some (OtherError 6))\<rparr>
     None \<lparr>name = name_main, description = name_main, dependencies = []\<rparr> executable ()
   = Returned (''Running xbookApp:[FAILED]'', Some (OtherError 6))
       ((), [Announce \<lparr>State = svc_StartPending, Accepts = 0\<rparr>, ExeStart,
             Announce status_Running, ExeRun,
             Recv \<lparr>Cmd = svc_Pause, CurrentStatus = status_Running, Context = 0\<rparr>,
             Announce status_Paused])"
proof -
  let ?W = "[5 \<mapsto> \<lparr>Title = ''ERROR_ACCESS_DENIED'', Description = ''Access denied.'',
                      Action = ''Run as administrator.''\<rparr>]"
  let ?pause = "\<lparr>Cmd = svc_Pause, CurrentStatus = status_Running, Context = 0\<rparr>"
  let ?env1 = "\<lparr>int_size = Int64, WinErrCode = ?W, failed = ''[FAILED]'',
                 IsAnInteractiveSession = Inl (ExitError (WaitStatus 5)),
                 dispatcher = Inr ([], [], None)\<rparr>"
  let ?env2 = "\<lparr>int_size = Int32, WinErrCode = ?W, failed = ''[FAILED]'',
                 IsAnInteractiveSession = Inr False, dispatcher = Inl (OtherError 1063)\<rparr>"
  let ?env3 = "\<lparr>int_size = Int64, WinErrCode = ?W, failed = ''[FAILED]'',
                 IsAnInteractiveSession = Inr False,
                 dispatcher = Inr ([], [Request ?pause], Some (OtherError 6))\<rparr>"
  let ?rec = "\<lparr>name = name_main, description = name_main, dependencies = []\<rparr>"
  let ?s = "\<lparr>wl = (), tick = fasttick, out = []\<rparr>"
  let ?none = "\<lparr>Title = [], Description = [], Action = []\<rparr>"
  have h1: "IsAnInteractiveSession ?env1 = Inl (ExitError (WaitStatus 5))
          \<or> IsAnInteractiveSession ?env1 = Inr False
            \<and> dispatcher ?env1 = Inl (ExitError (WaitStatus 5))
          \<or> IsAnInteractiveSession ?env1 = Inr False
            \<and> dispatcher ?env1 = Inr ([], [], Some (ExitError (WaitStatus 5)))"
    by simp
  have h2: "IsAnInteractiveSession ?env2 = Inl (OtherError 1063)
          \<or> IsAnInteractiveSession ?env2 = Inr False \<and> dispatcher ?env2 = Inl (OtherError 1063)
          \<or> IsAnInteractiveSession ?env2 = Inr False
            \<and> dispatcher ?env2 = Inr ([], [], Some (OtherError 1063))"
    by simp
  have h3: "IsAnInteractiveSession ?env3 = Inl (OtherError 6)
          \<or> IsAnInteractiveSession ?env3 = Inr False \<and> dispatcher ?env3 = Inl (OtherError 6)
          \<or> IsAnInteractiveSession ?env3 = Inr False
            \<and> dispatcher ?env3 = Inr ([], [Request ?pause], Some (OtherError 6))"
    by simp
  have run: "Execute None executable [] [Request ?pause] ()
     = Selecting \<lparr>wl = (), tick = slowtick,
         out = [Announce \<lparr>State = svc_StartPending, Accepts = 0\<rparr>, ExeStart,
                Announce status_Running, ExeRun, Recv ?pause, Announce status_Paused]\<rparr>"
    by (simp add: Execute_def startup_eq executable_def iteration_Pause)
  have a1: "windowsRecord_Run ?env1 None ?rec executable ()
     = Returned (''Running '' @ description ?rec @ '':'' @ failed ?env1,
         Some (getWindowsError (int_size ?env1) (WinErrCode ?env1) (ExitError (WaitStatus 5))))
         ((), [])"
    using Run_propagates_errors [OF h1, where elog = None and windows = ?rec
      and e = executable and w = "()" and n = Int64 and W = ?W and x = "OtherError 0"
      and status = 5 and sysErr = ?none and args' = "[]" and r' = "[]"
      and err' = "OtherError 0" and c = ?pause and s = ?s]
    by simp
  have a2: "windowsRecord_Run ?env2 None ?rec executable ()
     = Returned (''Running '' @ description ?rec @ '':'' @ failed ?env2,
         Some (getWindowsError (int_size ?env2) (WinErrCode ?env2) (OtherError 1063))) ((), [])"
    using Run_propagates_errors [OF h2, where elog = None and windows = ?rec
      and e = executable and w = "()" and n = Int64 and W = ?W and x = "OtherError 0"
      and status = 5 and sysErr = ?none and args' = "[]" and r' = "[]"
      and err' = "OtherError 0" and c = ?pause and s = ?s]
    by simp
  have a3: "windowsRecord_Run ?env3 None ?rec executable ()
     = Returned (''Running '' @ description ?rec @ '':'' @ failed ?env3,
         Some (getWindowsError (int_size ?env3) (WinErrCode ?env3) (OtherError 6)))
         (wl (final (Execute None executable [] [Request ?pause] ())),
          out (final (Execute None executable [] [Request ?pause] ())))"
    using Run_propagates_errors [OF h3, where elog = None and windows = ?rec
      and e = executable and w = "()" and n = Int64 and W = ?W and x = "OtherError 0"
      and status = 5 and sysErr = ?none and args' = "[]" and r' = "[]"
      and err' = "OtherError 0" and c = ?pause and s = ?s]
    by simp
  show ?thesis
    unfolding a1 a2 a3 run
    by (simp add: getWindowsError_def ExitStatus_def name_main_def)
qed

section \<open>Constructing the daemon never fails\<close>

text \<open>
  C9. \<^verbatim>\<open>newDaemon\<close> returns the record and a \<^verbatim>\<open>nil\<close> error whatever
  \<^verbatim>\<open>eventlog.Open\<close> gives; when that fails, \<^verbatim>\<open>elog\<close> is \<^verbatim>\<open>nil\<close>, a run of the handler
  then has no log entry, and it is the run with any log \<open>elog\<close> once the log entries are
  left out of the history.
\<close>

theorem newDaemon_never_fails:
  assumes "eventlog_Open nm = Inl err"
  shows "newDaemon eventlog_Open nm descr deps
           = (None, \<lparr>name = nm, description = descr, dependencies = deps\<rparr>, None)
       \<and> snd (newDaemon any_Open nm descr deps)
           = (\<lparr>name = nm, description = descr, dependencies = deps\<rparr>, None)
       \<and> logs (out (final
            (Execute (fst (newDaemon eventlog_Open nm descr deps)) e args r w))) = []
       \<and> through unlogged
            (Execute (fst (newDaemon eventlog_Open nm descr deps)) e args r w)
           = through unlogged (Execute elog e args r w)"
proof -
  have n: "newDaemon eventlog_Open nm descr deps
           = (None, \<lparr>name = nm, description = descr, dependencies = deps\<rparr>, None)"
    using assms by (simp add: newDaemon_def)
  have "snd (newDaemon any_Open nm descr deps)
           = (\<lparr>name = nm, description = descr, dependencies = deps\<rparr>, None)"
    by (simp add: newDaemon_def)
  with n show ?thesis
    using Execute_no_log [of e args r w] Execute_rel [of None e args r w elog] by simp
qed

theorem newDaemon_never_fails_witness:
  "(\<lambda>n. if n = ''xbookApp'' then Inl (OtherError 2) else Inr (Log n)) name_main
     = Inl (OtherError 2)
 \<and> newDaemon (\<lambda>n. if n = ''xbookApp'' then Inl (OtherError 2) else Inr (Log n))
       name_main name_main []
     = (None, \<lparr>name = name_main, description = name_main, dependencies = []\<rparr>, None)
 \<and> logs (out (final (Execute
      (fst (newDaemon (\<lambda>n. if n = ''xbookApp'' then Inl (OtherError 2) else Inr (Log n))
              name_main name_main []))
      executable []
      [Request \<lparr>Cmd = 6, CurrentStatus = status_Running, Context = 0\<rparr>,
       Request \<lparr>Cmd = svc_Stop, CurrentStatus = status_Running, Context = 0\<rparr>] ()))) = []"
proof -
  let ?open = "\<lambda>n. if n = ''xbookApp'' then Inl (OtherError 2) else Inr (Log n)"
  have h: "?open name_main = Inl (OtherError 2)" by (simp add: name_main_def)
  from newDaemon_never_fails [where eventlog_Open = ?open and nm = name_main
      and err = "OtherError 2" and descr = name_main and deps = "[]"
      and any_Open = "\<lambda>n. Inr (Log n)" and e = executable and args = "[]"
      and r = "[Request \<lparr>Cmd = 6, CurrentStatus = status_Running, Context = 0\<rparr>,
       Request \<lparr>Cmd = svc_Stop, CurrentStatus = status_Running, Context = 0\<rparr>]"
      and w = "()" and elog = "Some (Log name_main)", OF h]
  show ?thesis using h by (intro conjI) (elim conjE, assumption)+
qed

section \<open>The result of an interactive run\<close>

text \<open>
  C10, as stated: in an interactive session \<^verbatim>\<open>Run\<close> returns the success text whatever
  the workload's \<^verbatim>\<open>Run\<close> does. A workload whose \<^verbatim>\<open>Run\<close> does not return: neither does
  \<^verbatim>\<open>Run\<close>.
\<close>

theorem interactive_Run_blocked:
  "\<not> is_Returned (windowsRecord_Run
     \<lparr>int_size = Int64, WinErrCode = Map.empty, failed = ''[FAILED]'', IsAnInteractiveSession = Inr True,
      dispatcher = Inr ([], [], None)\<rparr>
     None \<lparr>name = name_main, description = name_main, dependencies = []\<rparr>
     \<lparr>Start = Some, Stop = Some, Run = (\<lambda>w. None)\<rparr> ())"
  by (simp add: windowsRecord_Run_def)

text \<open>
  C10, amended: in an interactive session the workload's \<^verbatim>\<open>Run\<close> is the only call made
  (neither \<^verbatim>\<open>Start\<close> nor \<^verbatim>\<open>Stop\<close>), and whenever it returns, in whatever state it leaves
  the workload, \<^verbatim>\<open>Run\<close> returns the success text and a \<^verbatim>\<open>nil\<close> error; while it has not
  returned, \<^verbatim>\<open>Run\<close> has not either.
\<close>

theorem interactive_Run_only_Run:
  assumes "IsAnInteractiveSession env = Inr True"
  shows "snd (final (windowsRecord_Run env elog windows e w)) = [ExeRun]
       \<and> (case Run e w of
            None \<Rightarrow> \<not> is_Returned (windowsRecord_Run env elog windows e w)
          | Some w' \<Rightarrow> windowsRecord_Run env elog windows e w
              = Returned (''Running '' @ description windows @ '': completed.'', None)
                  (w', [ExeRun]))"
  using assms by (cases "Run e w") (simp_all add: windowsRecord_Run_def)

theorem interactive_Run_only_Run_witness:
  "IsAnInteractiveSession
     \<lparr>int_size = Int64, WinErrCode = Map.empty, failed = ''[FAILED]'', IsAnInteractiveSession = Inr True,
      dispatcher = Inr ([], [], None)\<rparr> = Inr True
 \<and> windowsRecord_Run
     \<lparr>int_size = Int64, WinErrCode = Map.empty, failed = ''[FAILED]'', IsAnInteractiveSession = Inr True,
      dispatcher = Inr ([], [], None)\<rparr>
     None \<lparr>name = name_main, description = name_main, dependencies = []\<rparr> executable ()
   = Returned (''Running xbookApp: completed.'', None) ((), [ExeRun])"
proof -
  let ?env = "\<lparr>int_size = Int64, WinErrCode = Map.empty, failed = ''[FAILED]'', IsAnInteractiveSession = Inr True,
      dispatcher = Inr ([], [], None)\<rparr>"
  have h: "IsAnInteractiveSession ?env = Inr True" by simp
  from interactive_Run_only_Run [OF h, where elog = None
      and windows = "\<lparr>name = name_main, description = name_main, dependencies = []\<rparr>"
      and e = executable and w = "()"]
  show ?thesis using h by (simp add: executable_def name_main_def)
qed

end
